theory Spec2Isabelle
  imports Complex_Main "HOL-Library.Char_ord" "HOL-Library.List_Lexorder"
begin

section \<open>RPG leveling engine (src/cogs/rpg/rpg.py)\<close>

text \<open>
  Python floats are modelled by exact rationals: xp values, window accumulators and
  clock readings are \<open>rat\<close>. Levels are Python integers, modelled by \<open>int\<close>.
\<close>

subsection \<open>Tuning constants\<close>

definition XP_CONST :: int where
  "XP_CONST = 5"

definition UPDATE_CAP :: rat where
  "UPDATE_CAP = 60"

definition TIMER_MINUTES :: rat where
  "TIMER_MINUTES = 1"

subsection \<open>The leveling formula\<close>

text \<open>
  Python's built-in \<open>round(x, ndigits)\<close> rounds to the nearest multiple of
  \<open>10 ^ -ndigits\<close>, ties going to the even neighbour.
\<close>

definition round_half_even :: "rat \<Rightarrow> int" where
  "round_half_even x =
     (let f = \<lfloor>x\<rfloor>; r = x - of_int f
      in if r < 1 / 2 then f
         else if 1 / 2 < r then f + 1
         else if even f then f else f + 1)"

definition py_round :: "rat \<Rightarrow> nat \<Rightarrow> rat" where
  "py_round x ndigits = of_int (round_half_even (x * 10 ^ ndigits)) / 10 ^ ndigits"

text \<open>
  \<^verbatim>\<open>return (XP_CONST * level * level) - (XP_CONST * level) + round(level / 2, 2)\<close>
\<close>

definition calc_req_xp :: "int \<Rightarrow> rat" where
  "calc_req_xp level =
     of_int (XP_CONST * level * level) - of_int (XP_CONST * level)
       + py_round (of_int level / 2) 2"

text \<open>\<^verbatim>\<open>return xp >= self.calc_req_xp(level)\<close>\<close>

definition level_up :: "rat \<Rightarrow> int \<Rightarrow> bool" where
  "level_up xp level = (calc_req_xp level \<le> xp)"

subsection \<open>Data of the engine\<close>

text \<open>
  Exceptions of the Python runtime and of the repository that the modelled code can
  raise.
\<close>

datatype error =
    KeyError
  | AttributeError
  | IndexError
  | TypeError
  | BunkException string
  | OtherException string

text \<open>
  A \<open>discord.Member\<close> as far as the bot reads it: \<open>member.name\<close>,
  \<open>str(member.status)\<close> and \<open>member.mention\<close>.
\<close>

record member =
  member_name :: string
  member_status :: string
  member_mention :: string

text \<open>
  The dictionary \<^verbatim>\<open>{"value": ..., "last_update": ...}\<close> that \<open>RPG.config\<close> holds for
  each member name, and a stored user document with its \<open>xp\<close> and \<open>level\<close> keys.
\<close>

record activity_window =
  window_value :: rat
  last_update :: rat

record user_record =
  xp :: rat
  level :: int

text \<open>
  The storage module \<open>src.storage.db\<close> is not among the sources. Its three operations
  that the engine calls are parameters of the model: each takes the stored state and
  returns the new one with the document it hands back (\<open>None\<close> for Python's
  \<open>None\<close>).
\<close>

record 'db database =
  db_get_user :: "'db \<Rightarrow> member \<Rightarrow> 'db \<times> user_record option"
  db_update_user_xp :: "'db \<Rightarrow> member \<Rightarrow> rat \<Rightarrow> 'db \<times> user_record option"
  db_update_user_level :: "'db \<Rightarrow> member \<Rightarrow> 'db \<times> user_record option"

text \<open>
  A subscriber of an event hook. The only subscriber in the sources is the bound method
  \<open>BunkRPG.ding\<close>.
\<close>

datatype handler = Ding

text \<open>
  The \<open>RPG\<close> instance: its attribute \<open>config\<close>; \<open>hooks\<close>, its attributes that hold an
  \<open>EventHook\<close>, by attribute name, each with its subscribers in subscription order;
  the state of the storage module it writes to; and \<open>fired\<close>, the calls of
  \<open>on_user_level_up.fire\<close> made so far with their arguments, oldest first.
\<close>

record 'db rpg =
  config :: "string \<rightharpoonup> activity_window"
  hooks :: "string \<rightharpoonup> handler list"
  storage :: 'db
  fired :: "(member \<times> int) list"

text \<open>
  \<open>update_user_xp\<close> reads \<open>time.time()\<close> up to three times: when it creates the window
  (line 54), when it computes \<open>diff\<close> (line 57) and when it resets the window (line 79).
  The three readings are inputs of the model.
\<close>

record clock_reads =
  now_create :: rat
  now_diff :: rat
  now_reset :: rat

subsection \<open>The engine\<close>

text \<open>
  \<^verbatim>\<open>def __init__(self): self.config = {}; self.on_user_level_up = EventHook()\<close>
\<close>

definition RPG_init :: "'db \<Rightarrow> 'db rpg" where
  "RPG_init db0 =
     \<lparr>config = Map.empty, hooks = [''on_user_level_up'' \<mapsto> []], storage = db0, fired = []\<rparr>"

text \<open>
  \<open>RPG.sync_user_xp\<close>. The bare \<open>except\<close> swallows the \<open>KeyError\<close> of a member without
  a window; the \<open>finally\<close> block then runs on whatever \<open>new_user\<close> holds. Subscripting
  \<open>None\<close> raises \<open>TypeError\<close>.
\<close>

definition sync_user_xp :: "'db database \<Rightarrow> 'db rpg \<Rightarrow> member \<Rightarrow> error + 'db rpg" where
  "sync_user_xp D s m =
     (let (db1, new_user1) =
            (case config s (member_name m) of
               None \<Rightarrow> (storage s, None)
             | Some user \<Rightarrow> db_update_user_xp D (storage s) m (window_value user));
          (db2, new_user) =
            (case new_user1 of
               None \<Rightarrow> db_get_user D db1 m
             | Some u \<Rightarrow> (db1, Some u))
      in case new_user of
           None \<Rightarrow> Inr (s\<lparr>storage := db2\<rparr>)
         | Some u \<Rightarrow>
             if member_status m = ''online'' \<and> level_up (xp u) (level u + 1) then
               (let (db3, first_update) = db_update_user_level D db2 m
                in if member_status m = ''online'' then
                     (case db_update_user_level D db3 m of
                        (db4, None) \<Rightarrow> Inl TypeError
                      | (db4, Some leveled_user) \<Rightarrow>
                          Inr (s\<lparr>storage := db4,
                                 fired := fired s @ [(m, level leveled_user)]\<rparr>))
                   else Inr (s\<lparr>storage := db3\<rparr>))
             else Inr (s\<lparr>storage := db2\<rparr>))"

text \<open>
  \<open>RPG.update_user_xp\<close>. A member without a window gets one holding the given value
  and the first clock reading; the rest of the body then runs on that window.
\<close>

definition update_user_xp ::
  "'db database \<Rightarrow> clock_reads \<Rightarrow> 'db rpg \<Rightarrow> member \<Rightarrow> rat \<Rightarrow> bool \<Rightarrow> error + 'db rpg" where
  "update_user_xp D clk s m v duel =
     (let user =
            (case config s (member_name m) of
               Some u \<Rightarrow> u
             | None \<Rightarrow> \<lparr>window_value = v, last_update = now_create clk\<rparr>);
          diff = now_diff clk - last_update user
      in if duel \<or> 0 < diff then
           (let min_diff = diff / 60
            in if \<not> duel \<and> min_diff \<le> TIMER_MINUTES then
                 (if window_value user < UPDATE_CAP
                  then Inr (s\<lparr>config := (config s)(member_name m \<mapsto>
                              user\<lparr>window_value := window_value user + v\<rparr>)\<rparr>)
                  else Inr (s\<lparr>config := (config s)(member_name m \<mapsto> user)\<rparr>))
               else
                 (case db_update_user_xp D (storage s) m (window_value user) of
                    (db1, None) \<Rightarrow> Inl TypeError
                  | (db1, Some new_user) \<Rightarrow>
                      if level_up (xp new_user) (level new_user + 1) then
                        (case db_update_user_level D db1 m of
                           (db2, None) \<Rightarrow> Inl TypeError
                         | (db2, Some leveled_user) \<Rightarrow>
                             Inr (s\<lparr>config := (config s)(member_name m \<mapsto>
                                        \<lparr>window_value = v, last_update = now_reset clk\<rparr>),
                                    storage := db2,
                                    fired := fired s @ [(m, level leveled_user)]\<rparr>))
                      else
                        Inr (s\<lparr>config := (config s)(member_name m \<mapsto>
                                   \<lparr>window_value = v, last_update = now_reset clk\<rparr>),
                               storage := db1\<rparr>)))
         else Inr (s\<lparr>config := (config s)(member_name m \<mapsto> user)\<rparr>))"


subsection \<open>The storage operations as the specification describes them\<close>

text \<open>
  Modelled from the spec: the user table of the storage module \<open>src.storage.db\<close>, which
  is not among the sources (specification, section 4.4). \<open>get_user\<close> fetches or lazily
  creates a progression record (\<open>xp = 0\<close>, \<open>level = 1\<close>). \<open>update_user_xp\<close> overwrites the
  stored xp and returns the updated record. \<open>update_user_level\<close> recomputes the level
  from the stored xp with the leveling formula and persists it: the level advances by
  one when the stored xp clears \<open>calc_req_xp (level + 1)\<close> and is kept otherwise.
\<close>

definition spec_get_user ::
  "(string \<rightharpoonup> user_record) \<Rightarrow> member \<Rightarrow> (string \<rightharpoonup> user_record) \<times> user_record option" where
  "spec_get_user t m =
     (case t (member_name m) of
        Some u \<Rightarrow> (t, Some u)
      | None \<Rightarrow> (t(member_name m \<mapsto> \<lparr>xp = 0, level = 1\<rparr>), Some \<lparr>xp = 0, level = 1\<rparr>))"

definition spec_update_user_xp ::
  "(string \<rightharpoonup> user_record) \<Rightarrow> member \<Rightarrow> rat
     \<Rightarrow> (string \<rightharpoonup> user_record) \<times> user_record option" where
  "spec_update_user_xp t m v =
     (let u = (case t (member_name m) of Some u \<Rightarrow> u | None \<Rightarrow> \<lparr>xp = 0, level = 1\<rparr>);
          u' = u\<lparr>xp := v\<rparr>
      in (t(member_name m \<mapsto> u'), Some u'))"

definition spec_update_user_level ::
  "(string \<rightharpoonup> user_record) \<Rightarrow> member \<Rightarrow> (string \<rightharpoonup> user_record) \<times> user_record option" where
  "spec_update_user_level t m =
     (let u = (case t (member_name m) of Some u \<Rightarrow> u | None \<Rightarrow> \<lparr>xp = 0, level = 1\<rparr>);
          u' = (if level_up (xp u) (level u + 1) then u\<lparr>level := level u + 1\<rparr> else u)
      in (t(member_name m \<mapsto> u'), Some u'))"

definition spec_database :: "(string \<rightharpoonup> user_record) database" where
  "spec_database =
     \<lparr>db_get_user = spec_get_user,
      db_update_user_xp = spec_update_user_xp,
      db_update_user_level = spec_update_user_level\<rparr>"

subsection \<open>Runs inside one activity window\<close>




subsection \<open>Concrete inputs\<close>

definition alice :: member where
  "alice = \<lparr>member_name = ''alice'', member_status = ''online'', member_mention = ''<@1>''\<rparr>"

definition clock_at :: "rat \<Rightarrow> rat \<Rightarrow> clock_reads" where
  "clock_at t0 t1 = \<lparr>now_create = t0, now_diff = t1, now_reset = t1\<rparr>"


text \<open>
  A member with a stored record at level 1 and an unflushed window of 40.
\<close>

definition pending_level_up :: "(string \<rightharpoonup> user_record) rpg" where
  "pending_level_up =
     \<lparr>config = [''alice'' \<mapsto> \<lparr>window_value = 40, last_update = 0\<rparr>],
      hooks = [''on_user_level_up'' \<mapsto> []],
      storage = [''alice'' \<mapsto> \<lparr>xp = 0, level = 1\<rparr>],
      fired = []\<rparr>"

section \<open>The chat gateway and the bot core facade\<close>

text \<open>
  Channels and messages of the chat platform, as far as the modelled code reads them.
\<close>

record channel =
  channel_id :: nat
  channel_name :: string

record message =
  message_id :: nat
  message_channel :: channel
  message_content :: string
  author_id :: nat
  author_name :: string
  author_bot :: bool

text \<open>A rich embed: title, colour, fields (name, value, inline), thumbnail and footer.\<close>

record embed =
  embed_title :: string
  embed_color :: nat
  embed_fields :: "(string \<times> string \<times> bool) list"
  embed_thumbnail :: string
  embed_footer :: "string \<times> string"

text \<open>
  The calls that the modelled code makes on the bot core (\<open>src.bunkbot\<close>), on the chat
  library's objects and on the job scheduler. None of these is among the sources. A run
  of the code is observed through the list of the calls it made, oldest first.
\<close>

datatype effect =
    SendTyping channel
  | SayToChannel channel "string option" "embed option"
  | Say "string option" "embed option"
  | EditMessage "message option" "string option" "embed option"
  | DeleteMessage message
  | PurgeFrom channel
  | HandleError error string
  | AddJob string nat
  | MessageDelete message
  | ChannelDelete channel

text \<open>
  The bot core as a parameter: its two well-known channels, what each call answers
  given the calls made before it (\<open>Inl\<close> when it raises, otherwise the message it
  returns, if any), and the command parameters it extracts from an invoking message.
\<close>

record bot =
  streams_channel :: channel
  general_channel :: channel
  outcome :: "effect list \<Rightarrow> effect \<Rightarrow> error + message option"
  get_cmd_params :: "message \<Rightarrow> string list"

text \<open>Making a call: its answer, and the list of calls extended by it.\<close>

definition perform :: "bot \<Rightarrow> effect \<Rightarrow> effect list \<Rightarrow> (error + message option) \<times> effect list" where
  "perform b e calls = (outcome b calls e, calls @ [e])"

section \<open>RPG cog (src/cogs/rpg/rpg_cog.py)\<close>

text \<open>Python's \<open>str\<close> of a non-negative integer, and of any integer.\<close>

fun str_nat :: "nat \<Rightarrow> string" where
  "str_nat n =
     (if n < 10 then [''0123456789'' ! n]
      else str_nat (n div 10) @ [''0123456789'' ! (n mod 10)])"

definition str_int :: "int \<Rightarrow> string" where
  "str_int i = (if i < 0 then CHR ''-'' # str_nat (nat (- i)) else str_nat (nat i))"

text \<open>
  \<open>BunkRPG.ding\<close>: unless the member is named \<open>fugwenna\<close>, say the level-up line to
  the general channel. The result is the exception raised, if any, and the calls made.
\<close>

definition ding :: "bot \<Rightarrow> member \<Rightarrow> int \<Rightarrow> effect list \<Rightarrow> error option \<times> effect list" where
  "ding b m lvl calls =
     (if member_name m \<noteq> ''fugwenna'' then
        (case perform b
                (SayToChannel (general_channel b)
                   (Some ('':bell: DING! '' @ member_mention m @ '' has advanced to level ''
                            @ str_int lvl @ ''!''))
                   None)
                calls of
           (Inl e, calls') \<Rightarrow> (Some e, calls')
         | (Inr r, calls') \<Rightarrow> (None, calls'))
      else (None, calls))"

definition run_handler :: "bot \<Rightarrow> handler \<Rightarrow> member \<Rightarrow> int \<Rightarrow> effect list \<Rightarrow> error option \<times> effect list" where
  "run_handler b h m lvl calls = (case h of Ding \<Rightarrow> ding b m lvl calls)"

text \<open>
  Modelled from the spec: the class \<open>EventHook\<close> of \<open>src.util.event_hook\<close>, which is not
  among the sources (specification, section 3): an ordered set of subscriber
  callbacks; subscribers attach by reference (\<open>hook += callback\<close>); firing invokes all
  subscribers with the same arguments, in subscription order, and awaits each in turn.
\<close>

definition EventHook_iadd :: "handler list \<Rightarrow> handler \<Rightarrow> handler list" where
  "EventHook_iadd subscribers h = subscribers @ [h]"

fun EventHook_fire ::
  "bot \<Rightarrow> handler list \<Rightarrow> member \<Rightarrow> int \<Rightarrow> effect list \<Rightarrow> error option \<times> effect list" where
  "EventHook_fire b [] m lvl calls = (None, calls)"
| "EventHook_fire b (h # hs) m lvl calls =
     (case run_handler b h m lvl calls of
        (Some e, calls') \<Rightarrow> (Some e, calls')
      | (None, calls') \<Rightarrow> EventHook_fire b hs m lvl calls')"

text \<open>
  Reading an attribute of the \<open>RPG\<close> instance by name. The instance has the attributes
  that \<open>__init__\<close> sets (\<open>config\<close> and the hooks) and the four methods of the class body;
  any other name raises \<open>AttributeError\<close>.
\<close>

datatype attribute = HookAttr "handler list" | ConfigAttr | MethodAttr

definition RPG_methods :: "string list" where
  "RPG_methods = [''sync_user_xp'', ''update_user_xp'', ''calc_req_xp'', ''level_up'']"

definition RPG_getattr :: "'db rpg \<Rightarrow> string \<Rightarrow> error + attribute" where
  "RPG_getattr r n =
     (case hooks r n of
        Some subscribers \<Rightarrow> Inr (HookAttr subscribers)
      | None \<Rightarrow>
          if n = ''config'' then Inr ConfigAttr
          else if n \<in> set RPG_methods then Inr MethodAttr
          else Inl AttributeError)"

text \<open>
  \<open>BunkRPG.__init__\<close>: \<^verbatim>\<open>rpg.on_user_level += self.ding\<close> reads the attribute
  \<open>on_user_level\<close> of the engine, adds the handler to the hook it holds and stores the
  result under the same name.
\<close>

definition BunkRPG_init :: "'db rpg \<Rightarrow> error + 'db rpg" where
  "BunkRPG_init r =
     (case RPG_getattr r ''on_user_level'' of
        Inl e \<Rightarrow> Inl e
      | Inr (HookAttr subscribers) \<Rightarrow>
          Inr (r\<lparr>hooks := (hooks r)(''on_user_level'' \<mapsto> EventHook_iadd subscribers Ding)\<rparr>)
      | Inr other \<Rightarrow> Inl TypeError)"

text \<open>
  What the engine's \<^verbatim>\<open>await self.on_user_level_up.fire(member, level)\<close> does with the
  subscribers the hook has.
\<close>

definition fire_on_user_level_up ::
  "bot \<Rightarrow> 'db rpg \<Rightarrow> member \<Rightarrow> int \<Rightarrow> effect list \<Rightarrow> error option \<times> effect list" where
  "fire_on_user_level_up b r m lvl calls =
     (case hooks r ''on_user_level_up'' of
        None \<Rightarrow> (Some AttributeError, calls)
      | Some subscribers \<Rightarrow> EventHook_fire b subscribers m lvl calls)"

text \<open>A bot core whose calls all return normally, without a message.\<close>

definition quiet_bot :: bot where
  "quiet_bot =
     \<lparr>streams_channel = \<lparr>channel_id = 1, channel_name = ''streams''\<rparr>,
      general_channel = \<lparr>channel_id = 2, channel_name = ''general''\<rparr>,
      outcome = (\<lambda>calls e. Inr None),
      get_cmd_params = (\<lambda>msg. [])\<rparr>"

section \<open>Custom game base (src/game/custom_game.py)\<close>

text \<open>
  Python's \<open>str.lower\<close> on the letters of ASCII; the other characters are bytes of the
  UTF-8 encoding and stay as they are.
\<close>

definition lower_char :: "char \<Rightarrow> char" where
  "lower_char c =
     (case map_of (zip ''ABCDEFGHIJKLMNOPQRSTUVWXYZ'' ''abcdefghijklmnopqrstuvwxyz'') c of
        Some l \<Rightarrow> l
      | None \<Rightarrow> c)"

definition lower :: "string \<Rightarrow> string" where
  "lower s = map lower_char s"

record custom_game =
  game_channel :: channel
  is_cancelled :: bool

text \<open>\<open>CustomGame.__init__\<close> with \<open>set_defaults\<close>.\<close>

definition CustomGame_init :: "channel \<Rightarrow> custom_game" where
  "CustomGame_init ch = \<lparr>game_channel = ch, is_cancelled = False\<rparr>"

text \<open>\<open>CustomGame.cancel_game\<close>: \<^verbatim>\<open>await self.channel.delete()\<close>.\<close>

definition cancel_game ::
  "bot \<Rightarrow> custom_game \<Rightarrow> effect list \<Rightarrow> error option \<times> custom_game \<times> effect list" where
  "cancel_game b g calls =
     (case perform b (ChannelDelete (game_channel g)) calls of
        (Inl e, calls') \<Rightarrow> (Some e, g, calls')
      | (Inr r, calls') \<Rightarrow> (None, g, calls'))"

text \<open>\<open>CustomGame.is_cancel\<close>.\<close>

definition is_cancel ::
  "bot \<Rightarrow> custom_game \<Rightarrow> message \<Rightarrow> effect list \<Rightarrow> error option \<times> custom_game \<times> effect list" where
  "is_cancel b g msg calls =
     (let l_content = lower (message_content msg)
      in if l_content = ''cancel''
         then cancel_game b (g\<lparr>is_cancelled := True\<rparr>) calls
         else (None, g, calls))"

text \<open>\<open>CustomGame.get_content\<close>.\<close>

definition get_content :: "message \<Rightarrow> string" where
  "get_content msg = lower (message_content msg)"

section \<open>Connect-Four cog (src/game/connect4/connectfour_cog.py)\<close>

text \<open>
  The user service and the game class \<open>ConnectFourGame\<close> are not among the sources:
  the lookup of a user by id and the game's \<open>update\<close> are parameters. \<open>update\<close> takes the
  calls made so far and answers with the exception it raises or the game it leaves,
  and the calls made after it.
\<close>

record ('g, 'u) game_collaborators =
  get_by_id :: "nat \<Rightarrow> 'u"
  game_update :: "'g \<Rightarrow> message \<Rightarrow> 'u \<Rightarrow> effect list \<Rightarrow> (error + 'g) \<times> effect list"

text \<open>
  \<open>ConnectFourCog.get_answer\<close>, on the list \<open>self.games\<close>. Indexing an empty list with
  \<open>0\<close> raises \<open>IndexError\<close>. The result is the exception raised, if any, the list of
  games and the calls made.
\<close>

definition get_answer ::
  "('g, 'u) game_collaborators \<Rightarrow> bot \<Rightarrow> 'g list \<Rightarrow> message \<Rightarrow> effect list
     \<Rightarrow> error option \<times> 'g list \<times> effect list" where
  "get_answer P b games msg calls =
     (if \<not> author_bot msg then
        (if channel_name (message_channel msg) = ''connect4-fugwenna'' then
           (let user = get_by_id P (author_id msg)
            in case perform b (MessageDelete msg) calls of
                 (Inl e, calls1) \<Rightarrow> (Some e, games, calls1)
               | (Inr r, calls1) \<Rightarrow>
                   (case games of
                      [] \<Rightarrow> (Some IndexError, games, calls1)
                    | g # rest \<Rightarrow>
                        (case game_update P g msg user calls1 of
                           (Inl e, calls2) \<Rightarrow> (Some e, games, calls2)
                         | (Inr g', calls2) \<Rightarrow> (None, g' # rest, calls2))))
         else (None, games, calls))
      else (None, games, calls))"

text \<open>
  Concrete inputs: a message from a human author in the channel \<open>connect4-fugwenna\<close>,
  and collaborators for games that count the moves they received.
\<close>

definition move_message :: message where
  "move_message =
     \<lparr>message_id = 10,
      message_channel = \<lparr>channel_id = 3, channel_name = ''connect4-fugwenna''\<rparr>,
      message_content = ''4'',
      author_id = 7,
      author_name = ''alice'',
      author_bot = False\<rparr>"

definition counting_games :: "(nat, nat) game_collaborators" where
  "counting_games =
     \<lparr>get_by_id = (\<lambda>i. i),
      game_update = (\<lambda>g msg u calls. (Inr (Suc g), calls))\<rparr>"

section \<open>Twitch stream tracker (src/cogs/games/twitch_cog.py)\<close>

subsection \<open>Data of the tracker\<close>

text \<open>A record of the followed-stream collection \<open>database.streams\<close>.\<close>

record followed_stream =
  stream_name :: string
  added_by :: string

text \<open>
  The client of the streaming platform is an external library: its two operations are
  parameters, each answering with the exception it raises or with its result. A user
  of the platform is read through its \<open>id\<close>, a live stream through \<open>channel.url\<close>.
\<close>

record twitch_user =
  twitch_id :: nat
  twitch_display_name :: string

record live_stream =
  live_url :: string

record twitch_client =
  translate_usernames_to_ids :: "string list \<Rightarrow> error + twitch_user list"
  get_stream_by_user :: "nat \<Rightarrow> error + live_stream option"

text \<open>
  The cog's attributes, together with the followed-stream collection of the storage
  module and the calls made so far.
\<close>

record twitch_cog =
  current_stream_ids :: "nat list"
  msg_stream_list :: "message option"
  msg_help :: "message option"
  init_check :: bool
  followed :: "followed_stream list"
  calls_made :: "effect list"

text \<open>
  The wall clock as \<open>update_stream_list\<close> reads it: the hour of
  \<open>datetime.datetime.now(EST)\<close> and the text of \<open>now()\<close>.
\<close>

record moment =
  moment_hour :: nat
  moment_text :: string

definition TWITCH_ICON :: string where
  "TWITCH_ICON = ''https://vignette.wikia.nocookie.net/fallout/images/4/43/Twitch_icon.png/revision/latest?cb=20180507131302''"

text \<open>\<open>TwitchCog.__init__\<close>, on a given followed-stream collection.\<close>

definition TwitchCog_init :: "followed_stream list \<Rightarrow> twitch_cog" where
  "TwitchCog_init streams0 =
     \<lparr>current_stream_ids = [],
      msg_stream_list = None,
      msg_help = None,
      init_check = True,
      followed = streams0,
      calls_made = []\<rparr>"

text \<open>A call on the bot core made by the cog.\<close>

definition cog_call :: "bot \<Rightarrow> effect \<Rightarrow> twitch_cog \<Rightarrow> (error + message option) \<times> twitch_cog" where
  "cog_call b e st = (outcome b (calls_made st) e, st\<lparr>calls_made := calls_made st @ [e]\<rparr>)"

subsection \<open>Strings\<close>

text \<open>Python's \<open>sep.join(xs)\<close>, \<open>s.split(sep)\<close> for a one-character separator, and a text in single quotes.\<close>

fun join :: "string \<Rightarrow> string list \<Rightarrow> string" where
  "join sep [] = []"
| "join sep [x] = x"
| "join sep (x # y # ys) = x @ sep @ join sep (y # ys)"

fun split_on :: "char \<Rightarrow> string \<Rightarrow> string list" where
  "split_on sep [] = [[]]"
| "split_on sep (c # cs) =
     (if c = sep then [] # split_on sep cs
      else (case split_on sep cs of
              [] \<Rightarrow> [[c]]
            | w # ws \<Rightarrow> (c # w) # ws))"

definition quoted :: "string \<Rightarrow> string" where
  "quoted s = [CHR 0x27] @ s @ [CHR 0x27]"

subsection \<open>The followed-stream collection as the specification describes it\<close>

text \<open>
  Modelled from the spec: the collection \<open>database.streams\<close> of the storage module,
  which is not among the sources (specification, section 4.4). \<open>streams.all()\<close>
  returns every record, \<open>streams.get\<close> looks up a single record by exact name match or
  returns an absent result, and \<open>streams.insert\<close> appends a new record.
\<close>

definition streams_get :: "followed_stream list \<Rightarrow> string \<Rightarrow> followed_stream option" where
  "streams_get table sname = find (\<lambda>r. stream_name r = sname) table"

definition streams_insert :: "followed_stream list \<Rightarrow> followed_stream \<Rightarrow> followed_stream list" where
  "streams_insert table r = table @ [r]"

text \<open>
  Modelled from the spec: \<open>purge_from\<close> of the bot core, which is not among the sources
  (specification, section 4.2: purge messages from a channel matching an optional
  predicate). The messages for which the check holds are removed from the channel; the
  others stay.
\<close>

definition purge_from :: "message list \<Rightarrow> (message \<Rightarrow> bool) \<Rightarrow> message list" where
  "purge_from channel_messages check_fn = filter (\<lambda>m. \<not> check_fn m) channel_messages"

subsection \<open>Channel hygiene\<close>

text \<open>\<open>TwitchCog.rm_unwanted_messages_predicate\<close>.\<close>

definition rm_unwanted_messages_predicate :: "twitch_cog \<Rightarrow> message \<Rightarrow> bool" where
  "rm_unwanted_messages_predicate st msg =
     (case msg_stream_list st of
        None \<Rightarrow> True
      | Some stream_list \<Rightarrow>
          (case msg_help st of
             None \<Rightarrow> True
           | Some help \<Rightarrow>
               message_id msg \<noteq> message_id stream_list \<and> message_id msg \<noteq> message_id help))"

text \<open>
  \<open>TwitchCog.rm_msg\<close>. Reading \<open>.id\<close> of \<open>None\<close> raises \<open>AttributeError\<close>; the conjunction
  reads \<open>self.msg_help\<close> only when its first test holds.
\<close>

definition rm_msg :: "bot \<Rightarrow> twitch_cog \<Rightarrow> message \<Rightarrow> error option \<times> twitch_cog" where
  "rm_msg b st msg =
     (if channel_id (message_channel msg) = channel_id (streams_channel b) then
        (case msg_stream_list st of
           None \<Rightarrow> (Some AttributeError, st)
         | Some stream_list \<Rightarrow>
             if message_id msg \<noteq> message_id stream_list then
               (case msg_help st of
                  None \<Rightarrow> (Some AttributeError, st)
                | Some help \<Rightarrow>
                    if message_id msg \<noteq> message_id help then
                      (case cog_call b (DeleteMessage msg) st of
                         (Inl e, st1) \<Rightarrow> (Some e, st1)
                       | (Inr r, st1) \<Rightarrow> (None, st1))
                    else (None, st))
             else (None, st))
      else (None, st))"

subsection \<open>Rendering the stream list\<close>

text \<open>The loop of lines 76 to 83: one status line per resolved user, in order.\<close>

fun stream_statuses :: "twitch_client \<Rightarrow> twitch_user list \<Rightarrow> error + string list" where
  "stream_statuses T [] = Inr []"
| "stream_statuses T (u # us) =
     (case get_stream_by_user T (twitch_id u) of
        Inl e \<Rightarrow> Inl e
      | Inr strm \<Rightarrow>
          (case stream_statuses T us of
             Inl e \<Rightarrow> Inl e
           | Inr rest \<Rightarrow>
               Inr ((case strm of Some live \<Rightarrow> live_url live | None \<Rightarrow> ''Not streaming'') # rest)))"

definition stream_list_embed :: "string list \<Rightarrow> string list \<Rightarrow> embed" where
  "stream_list_embed stream_names statuses =
     \<lparr>embed_title = ''Currently Followed Streams'',
      embed_color = 0x19CF3A,
      embed_fields = [(''Stream'', join [CHR 0x0A] stream_names, True),
                      (''Status'', join [CHR 0x0A] statuses, True)],
      embed_thumbnail = TWITCH_ICON,
      embed_footer = (''type !stream <stream name> to add a stream to the list'', TWITCH_ICON)\<rparr>"

text \<open>Lines 91 to 98: post the panel, or edit the one posted before.\<close>

definition post_stream_list :: "bot \<Rightarrow> embed \<Rightarrow> twitch_cog \<Rightarrow> error option \<times> twitch_cog" where
  "post_stream_list b panel st =
     (case msg_stream_list st of
        None \<Rightarrow>
          if init_check st then
            (case cog_call b (SayToChannel (streams_channel b) None (Some panel))
                    (st\<lparr>init_check := False\<rparr>) of
               (Inl e, st1) \<Rightarrow> (Some e, st1)
             | (Inr r, st1) \<Rightarrow> (None, st1\<lparr>msg_stream_list := r\<rparr>))
          else
            (case cog_call b (Say None (Some panel)) st of
               (Inl e, st1) \<Rightarrow> (Some e, st1)
             | (Inr r, st1) \<Rightarrow> (None, st1\<lparr>msg_stream_list := r\<rparr>))
      | Some posted \<Rightarrow>
          (case cog_call b (EditMessage (Some posted) None (Some panel)) st of
             (Inl e, st1) \<Rightarrow> (Some e, st1)
           | (Inr r, st1) \<Rightarrow> (None, st1\<lparr>msg_stream_list := r\<rparr>)))"

text \<open>Lines 100 to 105: post the help line, or edit it with the time of the update.\<close>

definition post_help :: "bot \<Rightarrow> moment \<Rightarrow> twitch_cog \<Rightarrow> error option \<times> twitch_cog" where
  "post_help b mom st =
     (let h_text = ''Type !refresh or !update to refresh the current stream list''
      in case msg_help st of
           None \<Rightarrow>
             (case cog_call b (SayToChannel (streams_channel b) (Some h_text) None) st of
                (Inl e, st1) \<Rightarrow> (Some e, st1)
              | (Inr r, st1) \<Rightarrow> (None, st1\<lparr>msg_help := r\<rparr>))
         | Some posted \<Rightarrow>
             (case cog_call b
                     (EditMessage (Some posted)
                        (Some (h_text @ '' (last updated '' @ moment_text mom @ '')'')) None)
                     st of
                (Inl e, st1) \<Rightarrow> (Some e, st1)
              | (Inr r, st1) \<Rightarrow> (None, st1\<lparr>msg_help := r\<rparr>)))"

text \<open>The \<open>try\<close> block of \<open>TwitchCog.update_stream_list\<close>.\<close>

definition update_stream_list_try ::
  "bot \<Rightarrow> twitch_client \<Rightarrow> moment \<Rightarrow> twitch_cog \<Rightarrow> error option \<times> twitch_cog" where
  "update_stream_list_try b T mom st =
     (if moment_hour mom \<le> 23 \<and> 16 \<le> moment_hour mom then
        (let stream_names = map stream_name (sort_key stream_name (followed st))
         in case translate_usernames_to_ids T stream_names of
              Inl e \<Rightarrow> (Some e, st)
            | Inr stream_ids \<Rightarrow>
                (case stream_statuses T stream_ids of
                   Inl e \<Rightarrow> (Some e, st)
                 | Inr statuses \<Rightarrow>
                     (case post_stream_list b (stream_list_embed stream_names statuses) st of
                        (Some e, st1) \<Rightarrow> (Some e, st1)
                      | (None, st1) \<Rightarrow> post_help b mom st1)))
      else (None, st))"

text \<open>
  An exception handed to \<open>bot.handle_error\<close>; the handler's own exception, if any,
  leaves the method.
\<close>

definition handle_error :: "bot \<Rightarrow> error \<Rightarrow> string \<Rightarrow> twitch_cog \<Rightarrow> error option \<times> twitch_cog" where
  "handle_error b e label st =
     (case cog_call b (HandleError e label) st of
        (Inl e', st1) \<Rightarrow> (Some e', st1)
      | (Inr r, st1) \<Rightarrow> (None, st1))"

text \<open>\<open>TwitchCog.update_stream_list\<close>.\<close>

definition update_stream_list ::
  "bot \<Rightarrow> twitch_client \<Rightarrow> moment \<Rightarrow> twitch_cog \<Rightarrow> error option \<times> twitch_cog" where
  "update_stream_list b T mom st =
     (case update_stream_list_try b T mom st of
        (Some e, st1) \<Rightarrow> handle_error b e ''streams'' st1
      | (None, st1) \<Rightarrow> (None, st1))"

text \<open>
  \<open>TwitchCog.wire_stream_listener\<close>: on the initial check the streams channel is purged
  with \<open>rm_unwanted_messages_predicate\<close> as the check; then the list is rendered and the
  hourly job is added.
\<close>

definition wire_stream_listener ::
  "bot \<Rightarrow> twitch_client \<Rightarrow> moment \<Rightarrow> twitch_cog \<Rightarrow> error option \<times> twitch_cog" where
  "wire_stream_listener b T mom st =
     (let (raised, st3) =
            (case (if init_check st then cog_call b (PurgeFrom (streams_channel b)) st
                   else (Inr None, st)) of
               (Inl e, st1) \<Rightarrow> (Some e, st1)
             | (Inr r, st1) \<Rightarrow>
                 (case update_stream_list b T mom st1 of
                    (Some e, st2) \<Rightarrow> (Some e, st2)
                  | (None, st2) \<Rightarrow>
                      (case cog_call b (AddJob ''update_stream_list'' 60) st2 of
                         (Inl e, st3) \<Rightarrow> (Some e, st3)
                       | (Inr r', st3) \<Rightarrow> (None, st3))))
      in case raised of
           Some e \<Rightarrow> handle_error b e ''wire_stream_listener'' st3
         | None \<Rightarrow> (None, st3))"

subsection \<open>The stream command\<close>

text \<open>
  Lines 153 to 168 of \<open>TwitchCog.stream\<close>: resolve the name on the platform, insert the
  record, announce it outside the streams channel and render the list again.
\<close>

definition stream_register ::
  "bot \<Rightarrow> twitch_client \<Rightarrow> moment \<Rightarrow> twitch_cog \<Rightarrow> message \<Rightarrow> string
     \<Rightarrow> error option \<times> twitch_cog" where
  "stream_register b T mom st msg sname =
     (case translate_usernames_to_ids T [sname] of
        Inl e \<Rightarrow> (Some e, st)
      | Inr [] \<Rightarrow> (Some (BunkException (''Cannot find stream '' @ quoted sname)), st)
      | Inr (first_id # more_ids) \<Rightarrow>
          (let st1 = st\<lparr>followed := streams_insert (followed st)
                           \<lparr>stream_name = sname, added_by = author_name msg\<rparr>\<rparr>;
               elsewhere = (channel_id (message_channel msg) \<noteq> channel_id (streams_channel b))
           in case get_stream_by_user T (twitch_id first_id) of
                Inl e \<Rightarrow> (Some e, st1)
              | Inr strm \<Rightarrow>
                  (case (if strm = None \<and> elsewhere then
                           cog_call b
                             (Say (Some (''Stream '' @ quoted sname
                                      @ '' has been added to the database, but is not currently streaming.''))
                                None) st1
                         else if elsewhere then
                           (case strm of
                              None \<Rightarrow> (Inl AttributeError, st1)
                            | Some live \<Rightarrow>
                                cog_call b
                                  (Say (Some (''Stream '' @ quoted sname
                                           @ '' has been added to the database and is now streaming: ''
                                           @ live_url live))
                                     None) st1)
                         else (Inr None, st1)) of
                     (Inl e, st2) \<Rightarrow> (Some e, st2)
                   | (Inr r, st2) \<Rightarrow> update_stream_list b T mom st2)))"

text \<open>
  The \<open>try\<close> block of \<open>TwitchCog.stream\<close>, for the invoking message \<open>ctx.message\<close>. The
  last element of a list is read at index \<open>len - 1\<close>, which raises \<open>IndexError\<close> on an
  empty list.
\<close>

definition stream_try ::
  "bot \<Rightarrow> twitch_client \<Rightarrow> moment \<Rightarrow> twitch_cog \<Rightarrow> message \<Rightarrow> error option \<times> twitch_cog" where
  "stream_try b T mom st msg =
     (case cog_call b (SendTyping (message_channel msg)) st of
        (Inl e, st1) \<Rightarrow> (Some e, st1)
      | (Inr r, st1) \<Rightarrow>
          (case cog_call b (EditMessage (msg_help st1) (Some ''Updating...'') None) st1 of
             (Inl e, st2) \<Rightarrow> (Some e, st2)
           | (Inr help, st2') \<Rightarrow>
               (let st2 = st2'\<lparr>msg_help := help\<rparr>
                in case get_cmd_params b msg of
                     [] \<Rightarrow> (Some (BunkException ''Enter a stream name''), st2)
                   | param # more_params \<Rightarrow>
                       (case rev (split_on CHR ''/'' param) of
                          [] \<Rightarrow> (Some IndexError, st2)
                        | sname # segments \<Rightarrow>
                            (case streams_get (followed st2) sname of
                               Some found \<Rightarrow>
                                 (case cog_call b
                                         (EditMessage (msg_help st2)
                                            (Some ''Type !refresh or !update to refresh the current stream list'')
                                            None) st2 of
                                    (Inl e, st3) \<Rightarrow> (Some e, st3)
                                  | (Inr help', st3) \<Rightarrow>
                                      (Some (BunkException
                                               (''Stream '' @ quoted sname
                                                  @ '' has already been added to the database!'')),
                                       st3\<lparr>msg_help := help'\<rparr>))
                             | None \<Rightarrow> stream_register b T mom st2 msg sname)))))"

text \<open>
  \<open>TwitchCog.stream\<close>: a \<open>BunkException\<close> is answered with its message unless the
  command came from the streams channel; any other exception goes to
  \<open>bot.handle_error\<close>.
\<close>

definition stream :: "bot \<Rightarrow> twitch_client \<Rightarrow> moment \<Rightarrow> twitch_cog \<Rightarrow> message \<Rightarrow> error option \<times> twitch_cog" where
  "stream b T mom st msg =
     (case stream_try b T mom st msg of
        (None, st1) \<Rightarrow> (None, st1)
      | (Some (BunkException text_of), st1) \<Rightarrow>
          if channel_id (message_channel msg) \<noteq> channel_id (streams_channel b) then
            (case cog_call b (Say (Some text_of) None) st1 of
               (Inl e, st2) \<Rightarrow> (Some e, st2)
             | (Inr r, st2) \<Rightarrow> (None, st2))
          else (None, st1)
      | (Some e, st1) \<Rightarrow> handle_error b e ''stream'' st1)"

text \<open>The name that the command reads from its first parameter: the last segment of the path.\<close>

definition last_segment :: "string \<Rightarrow> string" where
  "last_segment param = last (split_on CHR ''/'' param)"

subsection \<open>Concrete inputs of the tracker\<close>

definition status_message :: "nat \<Rightarrow> message" where
  "status_message i =
     \<lparr>message_id = i,
      message_channel = streams_channel quiet_bot,
      message_content = '''',
      author_id = 0,
      author_name = ''bunkbot'',
      author_bot = True\<rparr>"

definition chatter :: message where
  "chatter =
     \<lparr>message_id = 7,
      message_channel = streams_channel quiet_bot,
      message_content = ''hello'',
      author_id = 7,
      author_name = ''alice'',
      author_bot = False\<rparr>"

definition rendered_cog :: twitch_cog where
  "rendered_cog =
     (TwitchCog_init [\<lparr>stream_name = ''shroud'', added_by = ''bob''\<rparr>])
       \<lparr>msg_stream_list := Some (status_message 100),
        msg_help := Some (status_message 101),
        init_check := False\<rparr>"

text \<open>
  A bot core that answers an edit with the message it was given and any other call
  with no message, and that reads the single parameter \<open>https://twitch.tv/shroud\<close>
  from every command.
\<close>

definition echo_bot :: bot where
  "echo_bot =
     quiet_bot
       \<lparr>outcome := (\<lambda>calls e. case e of EditMessage m new_content panel \<Rightarrow> Inr m | _ \<Rightarrow> Inr None),
        get_cmd_params := (\<lambda>msg. [''https://twitch.tv/shroud''])\<rparr>"

definition no_twitch :: twitch_client where
  "no_twitch =
     \<lparr>translate_usernames_to_ids = (\<lambda>names. Inr []),
      get_stream_by_user = (\<lambda>i. Inr None)\<rparr>"

definition noon :: moment where
  "noon = \<lparr>moment_hour = 12, moment_text = ''12:00''\<rparr>"

definition stream_command :: message where
  "stream_command =
     \<lparr>message_id = 8,
      message_channel = general_channel quiet_bot,
      message_content = ''!stream https://twitch.tv/shroud'',
      author_id = 7,
      author_name = ''alice'',
      author_bot = False\<rparr>"

text \<open>A client of the platform on which every name resolves and nobody is live.\<close>

definition offline_twitch :: twitch_client where
  "offline_twitch =
     \<lparr>translate_usernames_to_ids =
        (\<lambda>names. Inr (map (\<lambda>n. \<lparr>twitch_id = length n, twitch_display_name = n\<rparr>) names)),
      get_stream_by_user = (\<lambda>i. Inr None)\<rparr>"

section \<open>Properties of the leveling formula\<close>

lemma round_half_even_of_int: "round_half_even (of_int k) = k"
  by (simp add: round_half_even_def)

lemma py_round_half: "py_round (of_int L / 2) 2 = of_int L / 2"
proof -
  have "(of_int L / 2 :: rat) * 10 ^ 2 = of_int (50 * L)"
    by simp
  then show ?thesis
    by (simp only: py_round_def round_half_even_of_int) simp
qed


section \<open>Properties of the activity window\<close>













section \<open>Properties of a first call\<close>

text \<open>
  When the two clock readings of a first call coincide, the window holds exactly the
  given value, stamped with that reading, and storage is untouched.
\<close>

lemma update_user_xp_fresh_same_reading:
  assumes "config s (member_name m) = None"
    and "now_diff clk = now_create clk"
  shows "update_user_xp D clk s m v False =
           Inr (s\<lparr>config := (config s)(member_name m \<mapsto>
                  \<lparr>window_value = v, last_update = now_create clk\<rparr>)\<rparr>)"
  using assms by (simp add: update_user_xp_def)

text \<open>
  Claim C5. A member without a window sends a first message of value 5; the clock
  advances by a microsecond between the reading that stamps the new window and the
  reading that computes \<open>diff\<close>. The window is created with value 5 and the same call
  then adds the value again: the accumulator is 10, not 5. Storage is untouched.
\<close>

theorem fresh_member_value_counted_twice:
  "update_user_xp D (clock_at 1000 (1000 + 1 / 1000000)) (RPG_init db0) alice 5 False
     = Inr ((RPG_init db0)\<lparr>config := [''alice'' \<mapsto> \<lparr>window_value = 10, last_update = 1000\<rparr>]\<rparr>)"
  by (simp add: update_user_xp_def RPG_init_def alice_def clock_at_def UPDATE_CAP_def
      TIMER_MINUTES_def)

section \<open>Properties of the presence sync\<close>

lemma calc_req_xp_int: "calc_req_xp L = 5 * of_int L * of_int L - 5 * of_int L + of_int L / 2"
  by (simp add: calc_req_xp_def XP_CONST_def py_round_half)

text \<open>
  For a member who is not online the level update of the storage module is never
  called, and the hook does not fire: only the reconciled storage changes.
\<close>

lemma sync_user_xp_not_online:
  assumes "member_status m \<noteq> ''online''"
  shows "sync_user_xp D s m = sync_user_xp (D\<lparr>db_update_user_level := f\<rparr>) s m"
    and "\<exists>db'. sync_user_xp D s m = Inr (s\<lparr>storage := db'\<rparr>)"
  using assms
  by (auto simp: sync_user_xp_def Let_def split: option.splits prod.splits)

text \<open>
  For an online member whose reconciled xp clears the next level, whatever the storage
  operations are, the level update is applied twice in a row (lines 41 and 44), and the
  hook fires once, with the level that the second update returns.
\<close>

lemma sync_user_xp_online_level_up:
  assumes "config s (member_name m) = Some w"
    and "db_update_user_xp D (storage s) m (window_value w) = (db1, Some u)"
    and "member_status m = ''online''"
    and "level_up (xp u) (level u + 1)"
    and "db_update_user_level D db1 m = (db2, r)"
    and "db_update_user_level D db2 m = (db3, Some leveled_user)"
  shows "sync_user_xp D s m = Inr (s\<lparr>storage := db3, fired := fired s @ [(m, level leveled_user)]\<rparr>)"
  using assms by (simp add: sync_user_xp_def)

text \<open>
  Claim C2. An online member stored at level 1 with an unflushed window of 40: the
  sync reconciles the xp to 40, which clears the 11 required for level 2, and then
  persists level 3, not 2, and fires the hook with 3.
\<close>

theorem sync_user_xp_levels_twice:
  "sync_user_xp spec_database pending_level_up alice
     = Inr (pending_level_up\<lparr>storage := [''alice'' \<mapsto> \<lparr>xp = 40, level = 3\<rparr>],
                             fired := [(alice, 3)]\<rparr>)"
  by (simp add: sync_user_xp_def pending_level_up_def alice_def spec_database_def
      spec_update_user_xp_def spec_update_user_level_def level_up_def calc_req_xp_int Let_def)

text \<open>
  The sibling path: flushing the same window through \<open>update_user_xp\<close> (line 76 calls
  the level update once) persists level 2 and fires the hook with 2.
\<close>

lemma update_user_xp_flush_levels_once:
  "update_user_xp spec_database (clock_at 0 120) pending_level_up alice 5 False
     = Inr (pending_level_up\<lparr>config := [''alice'' \<mapsto> \<lparr>window_value = 5, last_update = 120\<rparr>],
                             storage := [''alice'' \<mapsto> \<lparr>xp = 40, level = 2\<rparr>],
                             fired := [(alice, 2)]\<rparr>)"
  by (simp add: update_user_xp_def pending_level_up_def alice_def spec_database_def
      spec_update_user_xp_def spec_update_user_level_def level_up_def calc_req_xp_int
      clock_at_def TIMER_MINUTES_def Let_def)

section \<open>Properties of the level-up announcement\<close>

lemma str_int_examples: "str_int 2 = ''2''" "str_int 12 = ''12''"
  by (simp_all add: str_int_def)

text \<open>
  The handler itself: for a member not named \<open>fugwenna\<close> it says the level-up line to
  the general channel, for \<open>fugwenna\<close> it does nothing.
\<close>

lemma ding_announces:
  "member_name m \<noteq> ''fugwenna'' \<Longrightarrow>
     snd (ding b m lvl calls) =
       calls @ [SayToChannel (general_channel b)
                  (Some ('':bell: DING! '' @ member_mention m @ '' has advanced to level ''
                           @ str_int lvl @ ''!'')) None]"
  "member_name m = ''fugwenna'' \<Longrightarrow> ding b m lvl calls = (None, calls)"
  by (simp_all add: ding_def perform_def split: sum.splits)

text \<open>
  Claim C4. The cog subscribes its handler to the attribute \<open>on_user_level\<close>, which the
  engine does not have: constructing the cog raises \<open>AttributeError\<close>. The hook that the
  engine fires, \<open>on_user_level_up\<close>, keeps no subscriber, so when it fires for the member
  \<open>alice\<close> with level 2 nothing is announced.
\<close>

theorem ding_never_subscribed:
  "BunkRPG_init (RPG_init db0) = Inl AttributeError
   \<and> hooks (RPG_init db0) ''on_user_level_up'' = Some []
   \<and> member_name alice \<noteq> ''fugwenna''
   \<and> fire_on_user_level_up b (RPG_init db0) alice 2 [] = (None, [])"
  by (simp add: BunkRPG_init_def RPG_init_def RPG_getattr_def RPG_methods_def
      fire_on_user_level_up_def alice_def)

section \<open>Properties of the custom game base\<close>

lemma lower_examples: "lower ''CaNcEl'' = ''cancel''" "lower ''cancel '' \<noteq> ''cancel''"
  by (simp_all add: lower_def lower_char_def)

text \<open>
  Claim C9. For every message, \<open>is_cancel\<close> on a newly constructed game leaves the flag
  \<open>is_cancelled\<close> true exactly when the lower-cased content is \<open>cancel\<close>, and in exactly
  that case makes one call, the deletion of the game's channel. For any other content,
  whatever the game, nothing changes and no call is made.
\<close>

theorem is_cancel_iff:
  "is_cancelled (fst (snd (is_cancel b (CustomGame_init ch) msg calls)))
     = (lower (message_content msg) = ''cancel'')
   \<and> snd (snd (is_cancel b (CustomGame_init ch) msg calls))
     = calls @ (if lower (message_content msg) = ''cancel'' then [ChannelDelete ch] else [])
   \<and> (if lower (message_content msg) = ''cancel''
       then fst (snd (is_cancel b g msg calls)) = g\<lparr>is_cancelled := True\<rparr>
       else is_cancel b g msg calls = (None, g, calls))"
  by (simp add: is_cancel_def cancel_game_def CustomGame_init_def perform_def split: sum.splits)

lemma is_cancel_examples:
  "is_cancel quiet_bot (CustomGame_init ch) (move_message\<lparr>message_content := ''Cancel''\<rparr>) []
     = (None, \<lparr>game_channel = ch, is_cancelled = True\<rparr>, [ChannelDelete ch])"
  "is_cancel quiet_bot (CustomGame_init ch) (move_message\<lparr>message_content := ''cancel it''\<rparr>) []
     = (None, \<lparr>game_channel = ch, is_cancelled = False\<rparr>, [])"
  by (simp_all add: is_cancel_def cancel_game_def CustomGame_init_def perform_def quiet_bot_def
      lower_def lower_char_def)

section \<open>Properties of the Connect-Four listener\<close>

text \<open>
  Claim C10. For a message from a non-bot author in the channel \<open>connect4-fugwenna\<close>:
  with an empty list of games the handler always ends in an exception, and when the
  deletion of the message returns, that exception is the \<open>IndexError\<close> of indexing
  element 0; the handler ends without an exception only if the list holds a game, and
  it does so when the list holds one and the collaborators return.
\<close>

theorem get_answer_empty_games:
  assumes "\<not> author_bot msg"
    and "channel_name (message_channel msg) = ''connect4-fugwenna''"
  shows "fst (get_answer P b [] msg calls) \<noteq> None
    \<and> (outcome b calls (MessageDelete msg) = Inr r \<longrightarrow>
         get_answer P b [] msg calls = (Some IndexError, [], calls @ [MessageDelete msg]))
    \<and> (fst (get_answer P b games msg calls) = None \<longrightarrow> games \<noteq> [])
    \<and> (outcome b calls (MessageDelete msg) = Inr r
         \<and> game_update P g msg (get_by_id P (author_id msg)) (calls @ [MessageDelete msg])
             = (Inr g', calls2) \<longrightarrow>
         get_answer P b (g # rest) msg calls = (None, g' # rest, calls2))"
  using assms
  by (auto simp: get_answer_def perform_def split: sum.splits list.splits prod.splits)

theorem get_answer_empty_games_witness:
  "\<not> author_bot move_message
   \<and> channel_name (message_channel move_message) = ''connect4-fugwenna''
   \<and> get_answer counting_games quiet_bot [] move_message []
       = (Some IndexError, [], [MessageDelete move_message])
   \<and> get_answer counting_games quiet_bot [0] move_message []
       = (None, [1], [MessageDelete move_message])"
proof -
  have h1: "\<not> author_bot move_message"
    by (simp add: move_message_def)
  have h2: "channel_name (message_channel move_message) = ''connect4-fugwenna''"
    by (simp add: move_message_def)
  have o: "outcome quiet_bot [] (MessageDelete move_message) = Inr None"
    by (simp add: quiet_bot_def)
  have u: "game_update counting_games 0 move_message
             (get_by_id counting_games (author_id move_message)) ([] @ [MessageDelete move_message])
           = (Inr 1, [MessageDelete move_message])"
    by (simp add: counting_games_def)
  from get_answer_empty_games [OF h1 h2, of counting_games quiet_bot "[]" None "[]" 0 1
      "[MessageDelete move_message]" "[]"] o u h1 h2
  show ?thesis by simp
qed

section \<open>Properties of the channel hygiene\<close>

text \<open>
  Claim C3 (as amended). When both tracked status messages exist, the purge predicate
  holds for a message exactly when its id is neither of the two tracked ids, so the
  purge keeps a message of the channel if and only if its id is one of the two. When
  either tracked message does not yet exist, the predicate holds for every message and
  the purge keeps none.
\<close>

theorem purge_predicate_keeps:
  "(msg_stream_list st = Some l \<and> msg_help st = Some h \<longrightarrow>
      (rm_unwanted_messages_predicate st m
         \<longleftrightarrow> \<not> (message_id m = message_id l \<or> message_id m = message_id h))
      \<and> (m \<in> set (purge_from msgs (rm_unwanted_messages_predicate st))
           \<longleftrightarrow> m \<in> set msgs \<and> (message_id m = message_id l \<or> message_id m = message_id h)))
   \<and> (msg_stream_list st = None \<or> msg_help st = None \<longrightarrow>
        rm_unwanted_messages_predicate st m
        \<and> purge_from msgs (rm_unwanted_messages_predicate st) = [])"
  by (auto simp: rm_unwanted_messages_predicate_def purge_from_def split: option.splits)

theorem purge_predicate_keeps_witness:
  "msg_stream_list rendered_cog = Some (status_message 100)
   \<and> msg_help rendered_cog = Some (status_message 101)
   \<and> status_message 101 \<in> set (purge_from [status_message 100, chatter, status_message 101]
                                   (rm_unwanted_messages_predicate rendered_cog))
   \<and> chatter \<notin> set (purge_from [status_message 100, chatter, status_message 101]
                                   (rm_unwanted_messages_predicate rendered_cog))
   \<and> msg_stream_list (TwitchCog_init []) = None
   \<and> purge_from [status_message 100, chatter, status_message 101]
        (rm_unwanted_messages_predicate (TwitchCog_init [])) = []"
proof -
  have h1: "msg_stream_list rendered_cog = Some (status_message 100)"
    and h2: "msg_help rendered_cog = Some (status_message 101)"
    by (simp_all add: rendered_cog_def TwitchCog_init_def)
  have h3: "msg_stream_list (TwitchCog_init []) = None"
    by (simp add: TwitchCog_init_def)
  from purge_predicate_keeps [of rendered_cog "status_message 100" "status_message 101"
      "status_message 101" "[status_message 100, chatter, status_message 101]"] h1 h2
  have a: "status_message 101 \<in> set (purge_from [status_message 100, chatter, status_message 101]
                                   (rm_unwanted_messages_predicate rendered_cog))"
    by simp
  from purge_predicate_keeps [of rendered_cog "status_message 100" "status_message 101"
      chatter "[status_message 100, chatter, status_message 101]"] h1 h2
  have b: "chatter \<notin> set (purge_from [status_message 100, chatter, status_message 101]
                                   (rm_unwanted_messages_predicate rendered_cog))"
    by (simp add: chatter_def status_message_def)
  from purge_predicate_keeps [of "TwitchCog_init []" "status_message 100" "status_message 101"
      chatter "[status_message 100, chatter, status_message 101]"] h3
  have c: "purge_from [status_message 100, chatter, status_message 101]
        (rm_unwanted_messages_predicate (TwitchCog_init [])) = []"
    by simp
  from h1 h2 h3 a b c show ?thesis by simp
qed

text \<open>
  The claim as stated fails: before the first render neither tracked message exists,
  and the predicate selects a message of the channel for removal instead of keeping it.
\<close>

theorem purge_removes_all_when_unset:
  "msg_stream_list (TwitchCog_init []) = None
   \<and> rm_unwanted_messages_predicate (TwitchCog_init []) chatter
   \<and> purge_from [chatter] (rm_unwanted_messages_predicate (TwitchCog_init [])) = []"
  by (simp add: rm_unwanted_messages_predicate_def purge_from_def TwitchCog_init_def)

text \<open>
  Once both tracked messages exist, the listener deletes exactly the messages of the
  streams channel that are neither of the two; it never deletes a message of another
  channel or a tracked message.
\<close>

lemma rm_msg_tracked:
  assumes "msg_stream_list st = Some l" and "msg_help st = Some h"
  shows "calls_made (snd (rm_msg b st msg)) =
           calls_made st @
             (if channel_id (message_channel msg) = channel_id (streams_channel b)
                 \<and> message_id msg \<noteq> message_id l \<and> message_id msg \<noteq> message_id h
              then [DeleteMessage msg] else [])"
  using assms by (simp add: rm_msg_def cog_call_def split: sum.splits)

lemma rm_msg_never_deletes_others:
  "channel_id (message_channel msg) \<noteq> channel_id (streams_channel b) \<Longrightarrow> rm_msg b st msg = (None, st)"
  "msg_stream_list st = Some l \<Longrightarrow> message_id msg = message_id l \<Longrightarrow> rm_msg b st msg = (None, st)"
  "msg_stream_list st = Some l \<Longrightarrow> msg_help st = Some h \<Longrightarrow> message_id msg = message_id h
     \<Longrightarrow> rm_msg b st msg = (None, st)"
  by (simp_all add: rm_msg_def)

text \<open>
  Claim C8. Before the first render the cog tracks no message. A message posted in the
  streams channel then makes the listener read \<open>.id\<close> of \<open>None\<close>: it raises
  \<open>AttributeError\<close> and the message is not deleted.
\<close>

theorem rm_msg_before_first_render:
  "channel_id (message_channel chatter) = channel_id (streams_channel quiet_bot)
   \<and> rm_msg quiet_bot (TwitchCog_init []) chatter = (Some AttributeError, TwitchCog_init [])
   \<and> calls_made (TwitchCog_init []) = []"
  by (simp add: rm_msg_def TwitchCog_init_def chatter_def)

section \<open>Properties of the stream command\<close>




lemma followed_cog_call [simp]: "followed (snd (cog_call b e st)) = followed st"
  by (simp add: cog_call_def)

lemma followed_handle_error [simp]: "followed (snd (handle_error b e label st)) = followed st"
  by (simp add: handle_error_def cog_call_def split: sum.splits)



lemma last_segment_examples:
  "last_segment ''https://twitch.tv/shroud'' = ''shroud''"
  "last_segment ''shroud'' = ''shroud''"
  by (simp_all add: last_segment_def)




text \<open>
  For comparison: a new name that the platform resolves is inserted, and a name that
  the platform cannot resolve is answered with a \<open>BunkException\<close> and not inserted.
\<close>

lemma stream_new_name_inserted:
  "followed (snd (stream echo_bot offline_twitch noon (TwitchCog_init []) stream_command))
     = [\<lparr>stream_name = ''shroud'', added_by = ''alice''\<rparr>]"
  by (simp add: stream_def stream_try_def stream_register_def update_stream_list_def
      update_stream_list_try_def cog_call_def echo_bot_def quiet_bot_def offline_twitch_def
      noon_def TwitchCog_init_def stream_command_def streams_get_def streams_insert_def)

lemma stream_unknown_name_not_inserted:
  "stream echo_bot no_twitch noon (TwitchCog_init []) stream_command
     = (None, (TwitchCog_init [])
          \<lparr>calls_made := [SendTyping (general_channel quiet_bot),
                          EditMessage None (Some ''Updating...'') None,
                          Say (Some (''Cannot find stream '' @ quoted ''shroud'')) None]\<rparr>)"
  by (simp add: stream_def stream_try_def stream_register_def cog_call_def echo_bot_def
      quiet_bot_def no_twitch_def TwitchCog_init_def stream_command_def streams_get_def)


end
